theory Spec2Isabelle
  imports Main "HOL-Library.Log_Nat"
begin

section \<open>JavaScript numbers\<close>

text \<open>
  The engine computes with the JavaScript Number type: IEEE 754 binary64 with
  round to nearest, ties to even. A finite number is represented by the rational it
  denotes; \<open>fl\<close> rounds an exact rational result to the nearest binary64 value
  (53 significant bits, least exponent \<open>-1074\<close>, overflow to an infinity from
  \<open>2 ^ 1024 - 2 ^ 970\<close> on).

  \<open>Math.sqrt\<close> is the correctly rounded square root and \<open>Math.pow(x, 2)\<close> the
  rounded product of \<open>x\<close> with itself.

  The two zeros are one value \<open>Fin 0\<close>: the code below divides only by array lengths
  and their square roots (at least 1) and compares with \<open>>=\<close>, \<open><\<close>, \<open>>\<close>, none of
  which tells \<open>-0\<close> from \<open>+0\<close>.
\<close>

datatype number = NaN | PInf | NInf | Fin rat

definition pow2 :: "int \<Rightarrow> rat" where
  \<comment> \<open>\<open>2\<close> to an integer exponent\<close>
  "pow2 e = (if 0 \<le> e then 2 ^ nat e else 1 / 2 ^ nat (- e))"

definition ilog2 :: "rat \<Rightarrow> int" where
  \<comment> \<open>the binary exponent \<open>\<lfloor>log\<^sub>2 \<bar>x\<bar>\<rfloor>\<close> of a non-zero rational\<close>
  "ilog2 x =
     (if 1 \<le> \<bar>x\<bar> then bitlen \<lfloor>\<bar>x\<bar>\<rfloor> - 1 else - bitlen (\<lceil>1 / \<bar>x\<bar>\<rceil> - 1))"

definition rne :: "rat \<Rightarrow> int" where
  \<comment> \<open>round to the nearest integer, ties to the even one\<close>
  "rne x =
     (let f = \<lfloor>x\<rfloor>; r = x - of_int f
      in if r < 1 / 2 then f else if 1 / 2 < r then f + 1 else if even f then f else f + 1)"

definition fl :: "rat \<Rightarrow> number" where
  "fl x =
     (if x = 0 then Fin 0
      else let qe = max (ilog2 x) (- 1022) - 52;
               v = of_int (rne (x / pow2 qe)) * pow2 qe
           in if v \<noteq> 0 \<and> 1024 \<le> ilog2 v then (if v < 0 then NInf else PInf) else Fin v)"

definition is_double :: "number \<Rightarrow> bool" where
  \<comment> \<open>a finite value is a binary64 number when rounding leaves it alone\<close>
  "is_double x = (case x of Fin q \<Rightarrow> fl q = Fin q | _ \<Rightarrow> True)"

definition lit :: "rat \<Rightarrow> number" where
  \<comment> \<open>a decimal literal of the source denotes the nearest binary64 number\<close>
  "lit q = fl q"

fun js_neg :: "number \<Rightarrow> number" where
  "js_neg NaN = NaN"
| "js_neg PInf = NInf"
| "js_neg NInf = PInf"
| "js_neg (Fin a) = Fin (- a)"

fun js_add :: "number \<Rightarrow> number \<Rightarrow> number" where
  "js_add NaN _ = NaN"
| "js_add _ NaN = NaN"
| "js_add PInf NInf = NaN"
| "js_add NInf PInf = NaN"
| "js_add PInf _ = PInf"
| "js_add _ PInf = PInf"
| "js_add NInf _ = NInf"
| "js_add _ NInf = NInf"
| "js_add (Fin a) (Fin b) = fl (a + b)"

definition js_sub :: "number \<Rightarrow> number \<Rightarrow> number" where
  "js_sub a b = js_add a (js_neg b)"

fun sign_inf :: "bool \<Rightarrow> number" where
  "sign_inf negative = (if negative then NInf else PInf)"

fun js_mul :: "number \<Rightarrow> number \<Rightarrow> number" where
  "js_mul NaN _ = NaN"
| "js_mul _ NaN = NaN"
| "js_mul PInf PInf = PInf"
| "js_mul PInf NInf = NInf"
| "js_mul NInf PInf = NInf"
| "js_mul NInf NInf = PInf"
| "js_mul PInf (Fin b) = (if b = 0 then NaN else sign_inf (b < 0))"
| "js_mul NInf (Fin b) = (if b = 0 then NaN else sign_inf (0 < b))"
| "js_mul (Fin a) PInf = (if a = 0 then NaN else sign_inf (a < 0))"
| "js_mul (Fin a) NInf = (if a = 0 then NaN else sign_inf (0 < a))"
| "js_mul (Fin a) (Fin b) = fl (a * b)"

fun js_div :: "number \<Rightarrow> number \<Rightarrow> number" where
  "js_div NaN _ = NaN"
| "js_div _ NaN = NaN"
| "js_div PInf PInf = NaN"
| "js_div PInf NInf = NaN"
| "js_div NInf PInf = NaN"
| "js_div NInf NInf = NaN"
| "js_div PInf (Fin b) = sign_inf (b < 0)"
| "js_div NInf (Fin b) = sign_inf (\<not> b < 0)"
| "js_div (Fin a) PInf = Fin 0"
| "js_div (Fin a) NInf = Fin 0"
| "js_div (Fin a) (Fin b) =
     (if b = 0 then (if a = 0 then NaN else sign_inf (a < 0)) else fl (a / b))"

function isqrt :: "int \<Rightarrow> int" where
  \<comment> \<open>the integer square root \<open>\<lfloor>\<surd>n\<rfloor>\<close>, one binary digit at a time\<close>
  "isqrt n =
     (if n \<le> 0 then 0
      else let r = 2 * isqrt (n div 4) in if (r + 1) * (r + 1) \<le> n then r + 1 else r)"
  by pat_completeness auto
termination
  by (relation "measure nat") auto

declare isqrt.simps [simp del]

definition sqrt_fin :: "rat \<Rightarrow> rat" where
  \<comment> \<open>the binary64 number nearest to the square root of a positive rational\<close>
  "sqrt_fin q =
     (let qe = ilog2 q div 2 - 52;
          y = q / pow2 (2 * qe);
          n = isqrt \<lfloor>y\<rfloor>;
          m = (of_int n + 1 / 2) * (of_int n + 1 / 2);
          k = (if y < m then n else if m < y then n + 1 else if even n then n else n + 1)
      in of_int k * pow2 qe)"

fun Math_sqrt :: "number \<Rightarrow> number" where
  "Math_sqrt NaN = NaN"
| "Math_sqrt PInf = PInf"
| "Math_sqrt NInf = NaN"
| "Math_sqrt (Fin q) = (if q < 0 then NaN else if q = 0 then Fin 0 else Fin (sqrt_fin q))"

definition Math_pow_2 :: "number \<Rightarrow> number" where
  \<comment> \<open>\<open>Math.pow(x, 2)\<close>: the rounded product of x with itself\<close>
  "Math_pow_2 x = js_mul x x"

fun js_ge :: "number \<Rightarrow> number \<Rightarrow> bool" where
  "js_ge NaN _ = False"
| "js_ge _ NaN = False"
| "js_ge PInf _ = True"
| "js_ge _ NInf = True"
| "js_ge NInf _ = False"
| "js_ge _ PInf = False"
| "js_ge (Fin a) (Fin b) = (b \<le> a)"

fun js_lt :: "number \<Rightarrow> number \<Rightarrow> bool" where
  "js_lt NaN _ = False"
| "js_lt _ NaN = False"
| "js_lt PInf _ = False"
| "js_lt _ NInf = False"
| "js_lt NInf _ = True"
| "js_lt _ PInf = True"
| "js_lt (Fin a) (Fin b) = (a < b)"

definition js_gt :: "number \<Rightarrow> number \<Rightarrow> bool" where
  "js_gt a b = js_lt b a"

definition of_len :: "nat \<Rightarrow> number" where
  \<comment> \<open>an array length (below \<open>2 ^ 32\<close>) is an exact number\<close>
  "of_len n = Fin (of_nat n)"

section \<open>The confidence selector\<close>

record prediction =
  name :: string
  confidence :: number

definition NonePrediction :: prediction where
  "NonePrediction = \<lparr>name = ''none'', confidence = lit 1\<rparr>"

text \<open>
  lodash's \<open>meanBy(array, 'confidence')\<close> is \<open>baseSum(array, iteratee) / length\<close> for a
  non-empty array; \<open>baseSum\<close> starts from \<open>undefined\<close> and adds from left to right.
\<close>

fun baseSum :: "number list \<Rightarrow> number option \<Rightarrow> number option" where
  "baseSum [] result = result"
| "baseSum (current # rest) result =
     baseSum rest (Some (case result of None \<Rightarrow> current | Some r \<Rightarrow> js_add r current))"

definition meanBy_confidence :: "prediction list \<Rightarrow> number" where
  "meanBy_confidence array =
     (if length array \<noteq> 0
      then (case baseSum (map confidence array) None of
              None \<Rightarrow> NaN
            | Some s \<Rightarrow> js_div s (of_len (length array)))
      else NaN)"

definition stdErr_of :: "prediction list \<Rightarrow> number \<Rightarrow> number" where
  "stdErr_of intents mean =
     js_div
       (Math_sqrt
          (js_div (foldl (\<lambda>a c. js_add a (Math_pow_2 (js_sub (confidence c) mean))) (lit 0) intents)
                  (of_len (length intents))))
       (Math_sqrt (of_len (length intents)))"

definition findMostConfidentPredictionMeanStd ::
  "prediction list \<Rightarrow> number \<Rightarrow> number option \<Rightarrow> prediction" where
  "findMostConfidentPredictionMeanStd intents fixedThreshold std_arg =
     (let std = (case std_arg of None \<Rightarrow> lit 3 | Some s \<Rightarrow> s)
      in if length intents = 0 then NonePrediction
         else case find (\<lambda>x. js_ge (confidence x) fixedThreshold) intents of
                Some best \<Rightarrow> best
              | None \<Rightarrow>
                 (let mean = meanBy_confidence intents;
                      stdErr = stdErr_of intents mean
                  in case find (\<lambda>x. js_ge (confidence x) (js_add (js_mul stdErr std) mean)) intents of
                       Some dominant \<Rightarrow> dominant
                     | None \<Rightarrow> NonePrediction))"


subsection \<open>The outlier rule in the specification's words\<close>

text \<open>
  The specification describes the fallback as: the arithmetic mean of all confidences,
  the population standard deviation divided by the square root of the count, and the
  first prediction at or above mean plus multiplier times standard error. Sums run from
  left to right, starting at zero, in the same number type.
\<close>

definition sum_numbers :: "number list \<Rightarrow> number" where
  "sum_numbers cs = foldl js_add (lit 0) cs"

definition arithmetic_mean :: "number list \<Rightarrow> number" where
  "arithmetic_mean cs = js_div (sum_numbers cs) (of_len (length cs))"

definition population_std_dev :: "number list \<Rightarrow> number" where
  "population_std_dev cs =
     Math_sqrt (js_div (sum_numbers (map (\<lambda>c. Math_pow_2 (js_sub c (arithmetic_mean cs))) cs))
                       (of_len (length cs)))"

definition standard_error :: "number list \<Rightarrow> number" where
  "standard_error cs = js_div (population_std_dev cs) (Math_sqrt (of_len (length cs)))"

definition outlier_cutoff :: "number list \<Rightarrow> number \<Rightarrow> number" where
  "outlier_cutoff cs stdDevMultiplier =
     js_add (arithmetic_mean cs) (js_mul stdDevMultiplier (standard_error cs))"

definition select_outlier_spec :: "prediction list \<Rightarrow> number \<Rightarrow> prediction" where
  "select_outlier_spec predictions stdDevMultiplier =
     (case find (\<lambda>p. js_ge (confidence p)
                         (outlier_cutoff (map confidence predictions) stdDevMultiplier))
                predictions of
        Some p \<Rightarrow> p
      | None \<Rightarrow> NonePrediction)"

section \<open>The scoped engine\<close>

text \<open>
  A JavaScript value that is a number or \<open>undefined\<close>: the configured threshold may
  be absent. \<open>isNaN\<close> and the comparisons convert with ToNumber, which sends
  \<open>undefined\<close> to NaN.
\<close>

datatype jsval = Undefined | Num number

fun to_number :: "jsval \<Rightarrow> number" where
  "to_number Undefined = NaN"
| "to_number (Num x) = x"

definition isNaN :: "jsval \<Rightarrow> bool" where
  "isNaN v = (to_number v = NaN)"

type_synonym error = string
type_synonym buffer = string

record intentDef =
  intent_name :: string
  utterances :: "string list"
  slots :: "string list"

record entityDef =
  entity_name :: string
  entity_type :: string

text \<open>
  The intent classifier is not part of the sources read here.
  Modelled from the spec: the classifier exposes \<open>current_model_id\<close>, and
  \<open>load_model(bytes, fingerprint)\<close> makes the given artifact the active model and tags
  the active model id with the fingerprint. Its \<open>train\<close> is modelled further down,
  once the environment that holds the training backend is declared.
\<close>

record classifier =
  currentModelId :: "string option"
  activeModel :: "buffer option"

definition loadModel :: "buffer \<Rightarrow> string \<Rightarrow> classifier \<Rightarrow> classifier" where
  \<comment> \<open>Modelled from the spec: \<open>load_model(bytes, fingerprint)\<close> of the intent classifier.\<close>
  "loadModel modelBuffer modelId c = c\<lparr>currentModelId := Some modelId, activeModel := Some modelBuffer\<rparr>"

datatype call =
    GetIntents
  | ModelExists string
  | GetModelAsBuffer string
  | LoadModel buffer string
  | Train "intentDef list" string
  | ReadFileSync string
  | PersistModel buffer string
  | SlotTrain "string list"

datatype log_entry = Debug string | Warn string | Error string error

text \<open>
  The collaborators of the engine (storage, classifier training and prediction, language
  identifier, entity and slot extractors, the file system, the clock, the md5 digest of
  the serialised intents) are parameters. Each call that can throw returns a sum, with
  the thrown error on the left. \<open>'s\<close> is the state of the storage and \<open>'x\<close> the state
  of the slot extractor.
\<close>

record ('s, 'x) env =
  config_confidenceTreshold :: jsval
  getIntents :: "'s \<Rightarrow> error + intentDef list"
  getIntent :: "string \<Rightarrow> 's \<Rightarrow> error + intentDef"
  getCustomEntities :: "'s \<Rightarrow> error + entityDef list"
  modelExists :: "string \<Rightarrow> 's \<Rightarrow> error + bool"
  getModelAsBuffer :: "string \<Rightarrow> 's \<Rightarrow> error + buffer"
  persistModel :: "buffer \<Rightarrow> string \<Rightarrow> 's \<Rightarrow> error + 's"
  md5_json :: "intentDef list \<Rightarrow> string"
  fastText_train :: "intentDef list \<Rightarrow> string \<Rightarrow> classifier \<Rightarrow> (error + string) \<times> classifier"
  predict :: "classifier \<Rightarrow> string \<Rightarrow> error + prediction list"
  readFileSync :: "string \<Rightarrow> error + buffer"
  Date_now :: nat
  generateTrainingSequence :: "string \<Rightarrow> string list \<Rightarrow> string \<Rightarrow> error + string"
  slot_train :: "string list \<Rightarrow> 'x \<Rightarrow> error + 'x"
  slot_extract :: "'x \<Rightarrow> string \<Rightarrow> intentDef \<Rightarrow> string list \<Rightarrow> error + string list"
  identify :: "string \<Rightarrow> error + string"
  createIntentMatcher :: "string \<Rightarrow> error + (string \<Rightarrow> bool)"
  extractPatternEntities :: "string \<Rightarrow> entityDef list \<Rightarrow> error + string list"
  extractListEntities :: "string \<Rightarrow> entityDef list \<Rightarrow> error + string list"
  system_extract :: "string \<Rightarrow> string \<Rightarrow> error + string list"
  retry_timed_out :: "nat \<Rightarrow> bool"

definition train ::
  "('s, 'x) env \<Rightarrow> intentDef list \<Rightarrow> string \<Rightarrow> classifier \<Rightarrow> (error + string) \<times> classifier" where
  \<comment> \<open>Modelled from the spec: \<open>train(intents, fingerprint) -> artifact_path\<close> of the intent
      classifier, which is not part of the sources read here. The engine hands it the
      fingerprint and calls no \<open>load_model\<close> afterwards, and the specification has the
      trained result loaded: a successful training leaves the trained model active in the
      classifier, tagged with the fingerprint; after a failed training the classifier
      retains its prior state. The training itself is the backend of the environment.\<close>
  "train env intents modelId c =
     (case fastText_train env intents modelId c of
        (Inl err, _) \<Rightarrow> (Inl err, c)
      | (Inr modelPath, trained) \<Rightarrow> (Inr modelPath, trained\<lparr>currentModelId := Some modelId\<rparr>))"

record ('s, 'x) engine =
  confidenceTreshold :: jsval
  storage :: 's
  intentClassifier :: classifier
  slotExtractor :: 'x
  logged :: "log_entry list"
  calls :: "call list"

definition logger :: "log_entry \<Rightarrow> ('s, 'x) engine \<Rightarrow> ('s, 'x) engine" where
  "logger entry eng = eng\<lparr>logged := logged eng @ [entry]\<rparr>"

definition called :: "call \<Rightarrow> ('s, 'x) engine \<Rightarrow> ('s, 'x) engine" where
  "called c eng = eng\<lparr>calls := calls eng @ [c]\<rparr>"

fun string_of_nat :: "nat \<Rightarrow> string" where
  \<comment> \<open>the decimal digits of a number, as a template literal prints an integer\<close>
  "string_of_nat n =
     (if n < 10 then [''0123456789'' ! n]
      else string_of_nat (n div 10) @ [''0123456789'' ! (n mod 10)])"

declare string_of_nat.simps [simp del]

definition priv_getIntentsHash :: "('s, 'x) env \<Rightarrow> intentDef list \<Rightarrow> string" where
  "priv_getIntentsHash env intents = md5_json env intents"

definition checkSyncNeeded ::
  "('s, 'x) env \<Rightarrow> ('s, 'x) engine \<Rightarrow> (error + bool) \<times> ('s, 'x) engine" where
  "checkSyncNeeded env eng0 =
     (let eng = called GetIntents eng0
      in case getIntents env (storage eng) of
           Inl e \<Rightarrow> (Inl e, eng)
         | Inr intents \<Rightarrow>
             if length intents \<noteq> 0
             then (let intentsHash = priv_getIntentsHash env intents
                   in (Inr (currentModelId (intentClassifier eng) \<noteq> Some intentsHash), eng))
             else (Inr False, eng))"

definition priv_loadModel ::
  "('s, 'x) env \<Rightarrow> string \<Rightarrow> ('s, 'x) engine \<Rightarrow> (error + unit) \<times> ('s, 'x) engine" where
  "priv_loadModel env modelHash eng0 =
     (let eng1 = logger (Debug (''Restoring intents model '' @ [CHR 0x27] @ modelHash @ [CHR 0x27]
                                  @ '' from storage'')) eng0;
          eng2 = called (GetModelAsBuffer modelHash) eng1
      in case getModelAsBuffer env modelHash (storage eng2) of
           Inl e \<Rightarrow> (Inl e, eng2)
         | Inr modelBuffer \<Rightarrow>
             (Inr (),
              (called (LoadModel modelBuffer modelHash) eng2)
                \<lparr>intentClassifier := loadModel modelBuffer modelHash (intentClassifier eng2)\<rparr>))"

definition priv_trainModel ::
  "('s, 'x) env \<Rightarrow> intentDef list \<Rightarrow> string \<Rightarrow> ('s, 'x) engine
     \<Rightarrow> (error + unit) \<times> ('s, 'x) engine" where
  "priv_trainModel env intents modelHash eng0 =
     (let eng1 = logger (Debug ''The intents model needs to be updated, training model ...'') eng0;
          (trained, c) = train env intents modelHash (intentClassifier eng1);
          eng2 = (called (Train intents modelHash) eng1)\<lparr>intentClassifier := c\<rparr>
      in case trained of
           Inl err \<Rightarrow> (Inr (), logger (Error ''Error training intents'' err) eng2)
         | Inr intentModelPath \<Rightarrow>
             (let eng3 = called (ReadFileSync intentModelPath) eng2
              in case readFileSync env intentModelPath of
                   Inl err \<Rightarrow> (Inr (), logger (Error ''Error training intents'' err) eng3)
                 | Inr intentModelBuffer \<Rightarrow>
                     (let intentModelName = string_of_nat (Date_now env) @ ''__'' @ modelHash @ ''.bin'';
                          eng4 = called (PersistModel intentModelBuffer intentModelName) eng3
                      in case persistModel env intentModelBuffer intentModelName (storage eng4) of
                           Inl err \<Rightarrow> (Inr (), logger (Error ''Error training intents'' err) eng4)
                         | Inr st \<Rightarrow>
                             (Inr (), logger (Debug ''Intents done training'') (eng4\<lparr>storage := st\<rparr>)))))"

fun sequence_all :: "(error + 'a) list \<Rightarrow> error + 'a list" where
  \<comment> \<open>evaluates in order and stops at the first throw\<close>
  "sequence_all [] = Inr []"
| "sequence_all (r # rs) =
     (case r of
        Inl e \<Rightarrow> Inl e
      | Inr v \<Rightarrow> (case sequence_all rs of Inl e \<Rightarrow> Inl e | Inr vs \<Rightarrow> Inr (v # vs)))"

definition trainingSet_of :: "('s, 'x) env \<Rightarrow> intentDef list \<Rightarrow> error + string list" where
  \<comment> \<open>\<open>flatMap(intents, intent => intent.utterances.map(...))\<close>\<close>
  "trainingSet_of env intents =
     sequence_all
       (concat (map (\<lambda>intent.
                  map (\<lambda>utterance.
                         generateTrainingSequence env utterance (slots intent) (intent_name intent))
                      (utterances intent))
                intents))"

definition sync ::
  "('s, 'x) env \<Rightarrow> ('s, 'x) engine \<Rightarrow> (error + unit) \<times> ('s, 'x) engine" where
  "sync env eng0 =
     (let eng1 = called GetIntents eng0
      in case getIntents env (storage eng1) of
           Inl e \<Rightarrow> (Inl e, eng1)
         | Inr intents \<Rightarrow>
            (let modelHash = priv_getIntentsHash env intents;
                 eng2 = called (ModelExists modelHash) eng1
             in case modelExists env modelHash (storage eng2) of
                  Inl e \<Rightarrow> (Inl e, eng2)
                | Inr exists \<Rightarrow>
                   (case (if exists then priv_loadModel env modelHash eng2
                          else priv_trainModel env intents modelHash eng2) of
                      (Inl e, eng3) \<Rightarrow> (Inl e, eng3)
                    | (Inr _, eng3) \<Rightarrow>
                       (case trainingSet_of env intents of
                          Inl err \<Rightarrow> (Inr (), logger (Error ''Error training slot tagger'' err) eng3)
                        | Inr trainingSet \<Rightarrow>
                           (let eng4 = called (SlotTrain trainingSet) eng3
                            in case slot_train env trainingSet (slotExtractor eng4) of
                                 Inl err \<Rightarrow>
                                   (Inr (), logger (Error ''Error training slot tagger'' err) eng4)
                               | Inr x \<Rightarrow> (Inr (), eng4\<lparr>slotExtractor := x\<rparr>))))))"

definition init ::
  "('s, 'x) env \<Rightarrow> ('s, 'x) engine \<Rightarrow> (error + unit) \<times> ('s, 'x) engine" where
  "init env eng0 =
     (let eng1 = eng0\<lparr>confidenceTreshold := config_confidenceTreshold env\<rparr>;
          eng2 = (if isNaN (confidenceTreshold eng1)
                     \<or> js_lt (to_number (confidenceTreshold eng1)) (lit 0)
                     \<or> js_gt (to_number (confidenceTreshold eng1)) (lit 1)
                  then eng1\<lparr>confidenceTreshold := Num (lit (7 / 10))\<rparr>
                  else eng1)
      in case checkSyncNeeded env eng2 of
           (Inl e, eng3) \<Rightarrow> (Inl e, eng3)
         | (Inr needed, eng3) \<Rightarrow> if needed then sync env eng3 else (Inr (), eng3))"

subsection \<open>The prediction pipeline\<close>

record event =
  preview :: string

record selected_intent = prediction +
  matches :: "string \<Rightarrow> bool"

record understanding =
  ret_language :: "string option"
  ret_intents :: "prediction list option"
  ret_intent :: "selected_intent option"
  ret_entities :: "string list option"
  ret_slots :: "string list option"
  errored :: bool

definition priv_extractEntities ::
  "('s, 'x) env \<Rightarrow> ('s, 'x) engine \<Rightarrow> string \<Rightarrow> string \<Rightarrow> error + string list" where
  "priv_extractEntities env eng text lang =
     (case getCustomEntities env (storage eng) of
        Inl e \<Rightarrow> Inl e
      | Inr customEntityDefs \<Rightarrow>
         (case extractPatternEntities env text
                 (filter (\<lambda>ent. entity_type ent = ''pattern'') customEntityDefs) of
            Inl e \<Rightarrow> Inl e
          | Inr patternEntities \<Rightarrow>
             (case extractListEntities env text
                     (filter (\<lambda>ent. entity_type ent = ''list'') customEntityDefs) of
                Inl e \<Rightarrow> Inl e
              | Inr listEntities \<Rightarrow>
                 (case system_extract env text lang of
                    Inl e \<Rightarrow> Inl e
                  | Inr systemEntities \<Rightarrow> Inr (systemEntities @ patternEntities @ listEntities)))))"

text \<open>
  The body of the \<open>try\<close> block: it returns the error thrown, if any, together with
  the object \<open>ret\<close> as the assignments completed so far have left it.
\<close>

definition extract_try ::
  "('s, 'x) env \<Rightarrow> ('s, 'x) engine \<Rightarrow> event \<Rightarrow> understanding \<Rightarrow> error option \<times> understanding" where
  "extract_try env eng incomingEvent ret0 =
     (let text = preview incomingEvent
      in case identify env text of
           Inl e \<Rightarrow> (Some e, ret0)
         | Inr lang \<Rightarrow>
       (let ret1 = ret0\<lparr>ret_language := Some lang\<rparr>
        in case predict env (intentClassifier eng) text of
             Inl e \<Rightarrow> (Some e, ret1)
           | Inr predictions \<Rightarrow>
         (let ret2 = ret1\<lparr>ret_intents := Some predictions\<rparr>;
              chosen = findMostConfidentPredictionMeanStd predictions
                         (to_number (confidenceTreshold eng)) None
          in case createIntentMatcher env (name chosen) of
               Inl e \<Rightarrow> (Some e, ret2)
             | Inr matcher \<Rightarrow>
           (let ret3 = ret2\<lparr>ret_intent := Some \<lparr>name = name chosen, confidence = confidence chosen,
                                                matches = matcher\<rparr>\<rparr>
            in case priv_extractEntities env eng text lang of
                 Inl e \<Rightarrow> (Some e, ret3)
               | Inr ents \<Rightarrow>
             (let ret4 = ret3\<lparr>ret_entities := Some ents\<rparr>
              in case getIntent env (name chosen) (storage eng) of
                   Inl e \<Rightarrow> (Some e, ret4)
                 | Inr intentDef \<Rightarrow>
                    (case slot_extract env (slotExtractor eng) text intentDef ents of
                       Inl e \<Rightarrow> (Some e, ret4)
                     | Inr found \<Rightarrow>
                        (None, ret4\<lparr>ret_slots := Some found, errored := False\<rparr>)))))))"

definition priv_extract ::
  "('s, 'x) env \<Rightarrow> event \<Rightarrow> ('s, 'x) engine \<Rightarrow> (error + understanding) \<times> ('s, 'x) engine" where
  \<comment> \<open>\<open>try { ... } catch (error) { warn } finally { return ret }\<close>\<close>
  "priv_extract env incomingEvent eng =
     (let ret0 = \<lparr>ret_language = None, ret_intents = None, ret_intent = None,
                  ret_entities = None, ret_slots = None, errored = True\<rparr>;
          (thrown, ret) = extract_try env eng incomingEvent ret0;
          eng1 = (case thrown of
                    None \<Rightarrow> eng
                  | Some error \<Rightarrow> logger (Warn (''Could not extract whole NLU data, '' @ error)) eng)
      in (Inr ret, eng1))"

text \<open>
  \<open>retry(func, policy)\<close> of bluebird-retry calls \<open>func\<close>; a fulfilled attempt ends the
  loop with its value; a rejected attempt is counted, and the loop gives up with the
  error once the count reaches \<open>max_tries\<close> or the time budget is used up, and
  otherwise waits and calls \<open>func\<close> again. The function returns the number of attempts
  made as well.
\<close>

record retry_policy =
  interval :: nat
  max_interval :: nat
  timeout :: nat
  max_tries :: nat

definition retryPolicy :: retry_policy where
  "retryPolicy = \<lparr>interval = 100, max_interval = 500, timeout = 5000, max_tries = 3\<rparr>"

fun retry_loop ::
  "nat \<Rightarrow> nat \<Rightarrow> (nat \<Rightarrow> bool) \<Rightarrow> ('st \<Rightarrow> (error + 'a) \<times> 'st) \<Rightarrow> 'st
     \<Rightarrow> ((error + 'a) \<times> 'st) \<times> nat" where
  "retry_loop 0 tries timed_out func st = ((Inl ''retry: no attempt left'', st), tries)"
| "retry_loop (Suc remaining) tries timed_out func st =
     (case func st of
        (Inr v, st1) \<Rightarrow> ((Inr v, st1), Suc tries)
      | (Inl err, st1) \<Rightarrow>
          if remaining = 0 \<or> timed_out (Suc tries) then ((Inl err, st1), Suc tries)
          else retry_loop remaining (Suc tries) timed_out func st1)"

definition retry ::
  "('st \<Rightarrow> (error + 'a) \<times> 'st) \<Rightarrow> retry_policy \<Rightarrow> (nat \<Rightarrow> bool) \<Rightarrow> 'st
     \<Rightarrow> ((error + 'a) \<times> 'st) \<times> nat" where
  "retry func policy timed_out st = retry_loop (max_tries policy) 0 timed_out func st"

definition public_extract ::
  "('s, 'x) env \<Rightarrow> event \<Rightarrow> ('s, 'x) engine
     \<Rightarrow> ((error + understanding) \<times> ('s, 'x) engine) \<times> nat" where
  \<comment> \<open>the method \<open>extract\<close> of the engine\<close>
  "public_extract env incomingEvent eng =
     retry (priv_extract env incomingEvent) retryPolicy (retry_timed_out env) eng"

subsection \<open>A concrete environment\<close>

text \<open>
  A small environment on which the engine can be run: the storage holds the intent
  definitions and the persisted artifacts by file name, a model exists for a fingerprint
  when some file name ends in \<open>__<fingerprint>.bin\<close>, and the training backend writes
  a file and makes its contents the active model.
\<close>

type_synonym demo_storage = "intentDef list \<times> (string \<times> buffer) list"

definition ends_with :: "string \<Rightarrow> string \<Rightarrow> bool" where
  "ends_with s n = (length s \<le> length n \<and> drop (length n - length s) n = s)"

definition demo_find_model :: "string \<Rightarrow> demo_storage \<Rightarrow> (string \<times> buffer) option" where
  "demo_find_model h st = find (\<lambda>f. ends_with (''__'' @ h @ ''.bin'') (fst f)) (snd st)"

definition demo_env :: "(demo_storage, string list) env" where
  "demo_env =
     \<lparr>config_confidenceTreshold = Num (lit (1 / 2)),
      getIntents = (\<lambda>st. Inr (fst st)),
      getIntent = (\<lambda>n st. case find (\<lambda>i. intent_name i = n) (fst st) of
                             None \<Rightarrow> Inl ''no such intent''
                           | Some i \<Rightarrow> Inr i),
      getCustomEntities = (\<lambda>st. Inr []),
      modelExists = (\<lambda>h st. Inr (demo_find_model h st \<noteq> None)),
      getModelAsBuffer = (\<lambda>h st. case demo_find_model h st of
                                    None \<Rightarrow> Inl ''no such model''
                                  | Some f \<Rightarrow> Inr (snd f)),
      persistModel = (\<lambda>b n st. Inr (fst st, snd st @ [(n, b)])),
      md5_json = (\<lambda>is. ''md5-'' @ concat (map intent_name is)),
      fastText_train =
        (\<lambda>is h c. (Inr (''/tmp/'' @ h @ ''.model.bin''),
                    c\<lparr>activeModel := Some (''model trained at /tmp/'' @ h @ ''.model.bin'')\<rparr>)),
      predict = (\<lambda>c text. Inr [\<lparr>name = ''greet'', confidence = lit (9 / 10)\<rparr>,
                                 \<lparr>name = ''bye'', confidence = lit (2 / 5)\<rparr>]),
      readFileSync = (\<lambda>path. Inr (''model trained at '' @ path)),
      Date_now = 1541203200000,
      generateTrainingSequence = (\<lambda>u sl n. Inr (n @ '': '' @ u)),
      slot_train = (\<lambda>ts x. Inr ts),
      slot_extract = (\<lambda>x text d ents. Inr []),
      identify = (\<lambda>text. Inr ''en''),
      createIntentMatcher = (\<lambda>n. Inr (\<lambda>pattern. pattern = n)),
      extractPatternEntities = (\<lambda>text defs. Inr []),
      extractListEntities = (\<lambda>text defs. Inr []),
      system_extract = (\<lambda>text lang. Inr []),
      retry_timed_out = (\<lambda>k. False)\<rparr>"

definition demo_intents :: "intentDef list" where
  "demo_intents =
     [\<lparr>intent_name = ''greet'', utterances = [''hello'', ''hi there''], slots = []\<rparr>,
      \<lparr>intent_name = ''bye'', utterances = [''see you''], slots = []\<rparr>]"

definition demo_engine :: "(string \<times> buffer) list \<Rightarrow> (demo_storage, string list) engine" where
  \<comment> \<open>a freshly constructed engine over the given persisted artifacts\<close>
  "demo_engine files =
     \<lparr>confidenceTreshold = Num (lit (7 / 10)),
      storage = (demo_intents, files),
      intentClassifier = \<lparr>currentModelId = None, activeModel = None\<rparr>,
      slotExtractor = [],
      logged = [],
      calls = []\<rparr>"

section \<open>Facts about the number model\<close>

text \<open>
  Evaluation of closed terms goes through the simplifier: the definitions of the number
  model are unfolded on numerals, with \<open>let\<close> bindings evaluated before their bodies.
\<close>

lemma floor_numeral_quotient [simp]: "\<lfloor>numeral a / numeral b :: rat\<rfloor> = numeral a div numeral b"
  using floor_divide_of_int_eq [of "numeral a" "numeral b", where ?'a = rat] by simp

lemma ceiling_numeral_quotient [simp]:
  "\<lceil>numeral a / numeral b :: rat\<rceil> = - ((- numeral a) div numeral b)"
  using ceiling_divide_eq_div [of "numeral a" "numeral b", where ?'a = rat] by simp

lemma Let_by_value: "a = b \<Longrightarrow> Let a f = Let b f"
  by simp

lemmas number_eval = fl_def ilog2_def rne_def pow2_def Let_def compute_bitlen lit_def
  sqrt_fin_def isqrt.simps of_len_def Math_pow_2_def js_sub_def js_gt_def

lemma fl_0 [simp]: "fl 0 = Fin 0"
  by (simp add: fl_def)

lemma lit_0 [simp]: "lit 0 = Fin 0"
  by (simp add: lit_def)

lemma lit_1 [simp]: "lit 1 = Fin 1"
  by (simp add: number_eval cong: Let_by_value)

lemma lit_3 [simp]: "lit 3 = Fin 3"
  by (simp add: number_eval cong: Let_by_value)

lemma js_add_commute: "js_add a b = js_add b a"
  by (cases a; cases b) (simp_all add: add.commute)

lemma js_mul_commute: "js_mul a b = js_mul b a"
  by (cases a; cases b) (simp_all add: mult.commute)

lemma js_add_zero_left: "is_double x \<Longrightarrow> js_add (Fin 0) x = x"
  by (cases x) (simp_all add: is_double_def)

lemma js_lt_not_ge: "js_lt a b \<Longrightarrow> \<not> js_ge a b"
  by (cases a; cases b) simp_all

lemma isqrt_nonneg: "0 \<le> isqrt n"
proof (induction n rule: isqrt.induct)
  case (1 n)
  show ?case
  proof (cases "n \<le> 0")
    case True
    then show ?thesis by (simp add: isqrt.simps)
  next
    case False
    with 1 have "0 \<le> isqrt (n div 4)" by simp
    with False show ?thesis by (subst isqrt.simps) (simp add: Let_def)
  qed
qed

lemma isqrt_correct: "0 \<le> n \<Longrightarrow> isqrt n * isqrt n \<le> n \<and> n < (isqrt n + 1) * (isqrt n + 1)"
proof (induction n rule: isqrt.induct)
  case (1 n)
  show ?case
  proof (cases "n \<le> 0")
    case True
    with 1 have "n = 0" by simp
    then show ?thesis by (simp add: isqrt.simps)
  next
    case False
    define s where "s = isqrt (n div 4)"
    from False 1 have ih: "s * s \<le> n div 4" "n div 4 < (s + 1) * (s + 1)"
      by (simp_all add: s_def)
    have s0: "0 \<le> s" by (simp add: s_def isqrt_nonneg)
    from ih(1) have lo: "(2 * s) * (2 * s) \<le> n" by (simp add: algebra_simps)
    from ih(2) have "n div 4 + 1 \<le> (s + 1) * (s + 1)" by simp
    then have hi: "n < (2 * s + 2) * (2 * s + 2)" by (simp add: algebra_simps)
    have unfold: "isqrt n = (if (2 * s + 1) * (2 * s + 1) \<le> n then 2 * s + 1 else 2 * s)"
      using False by (subst isqrt.simps) (simp add: Let_def s_def)
    show ?thesis
    proof (cases "(2 * s + 1) * (2 * s + 1) \<le> n")
      case True
      with unfold hi show ?thesis by (simp add: algebra_simps)
    next
      case False
      with unfold lo show ?thesis by (simp add: algebra_simps)
    qed
  qed
qed

lemma isqrt_pos: "1 \<le> n \<Longrightarrow> 1 \<le> isqrt n"
proof -
  assume n: "1 \<le> n"
  then have "n < (isqrt n + 1) * (isqrt n + 1)" using isqrt_correct [of n] by simp
  moreover have "0 \<le> isqrt n" by (rule isqrt_nonneg)
  ultimately show ?thesis using n by (cases "isqrt n = 0") auto
qed

lemma pow2_pos: "0 < pow2 e"
  by (simp add: pow2_def)

lemma pow2_powi: "pow2 e = 2 powi e"
  by (simp add: pow2_def power_int_def field_simps)

lemma pow2_mono: "a \<le> b \<Longrightarrow> pow2 a \<le> pow2 b"
  by (simp add: pow2_powi power_int_increasing)

lemma pow2_ilog2_le: "1 \<le> q \<Longrightarrow> pow2 (ilog2 q) \<le> q"
proof -
  assume q: "1 \<le> q"
  then have fq: "0 < \<lfloor>q\<rfloor>" by linarith
  from fq have b1: "1 \<le> bitlen \<lfloor>q\<rfloor>" by (auto simp: bitlen_alt_def)
  have "pow2 (ilog2 q) = 2 ^ nat (bitlen \<lfloor>q\<rfloor> - 1)"
    using q b1 by (simp add: ilog2_def pow2_def)
  also have "\<dots> = of_int (2 ^ nat (bitlen \<lfloor>q\<rfloor> - 1))" by simp
  also have "\<dots> \<le> of_int \<lfloor>q\<rfloor>"
    using bitlen_bounds [OF fq] by (simp only: of_int_le_iff)
  also have "\<dots> \<le> q" by simp
  finally show ?thesis .
qed

lemma sqrt_fin_pos: "1 \<le> q \<Longrightarrow> 0 < sqrt_fin q"
proof -
  assume q: "1 \<le> q"
  define qe where "qe = ilog2 q div 2 - 52"
  define y where "y = q / pow2 (2 * qe)"
  define n where "n = isqrt \<lfloor>y\<rfloor>"
  have "2 * qe \<le> ilog2 q" by (simp add: qe_def) 
  then have "pow2 (2 * qe) \<le> pow2 (ilog2 q)" by (rule pow2_mono)
  also have "\<dots> \<le> q" using q by (rule pow2_ilog2_le)
  finally have "1 \<le> y" using pow2_pos [of "2 * qe"] by (simp add: y_def)
  then have "1 \<le> \<lfloor>y\<rfloor>" by simp
  then have n1: "1 \<le> n" unfolding n_def by (rule isqrt_pos)
  have "sqrt_fin q = of_int n * pow2 qe \<or> sqrt_fin q = of_int (n + 1) * pow2 qe"
    by (simp add: sqrt_fin_def Let_def qe_def y_def n_def)
  moreover have "0 < rat_of_int n * pow2 qe" using n1 pow2_pos [of qe] by simp
  moreover have "0 < rat_of_int (n + 1) * pow2 qe" using n1 pow2_pos [of qe] by (simp add: mult_pos_pos)
  ultimately show ?thesis by auto
qed

subsection \<open>The rounding functions round to nearest\<close>

text \<open>
  The integer chosen by \<open>rne\<close> is within one half of its argument, \<open>ilog2\<close> is the
  binary exponent, a finite result of \<open>fl\<close> is within half a unit in the last place of
  the exact value, and the square of the scaled result of \<open>sqrt_fin\<close> brackets the
  scaled argument between the two neighbouring midpoints.
\<close>

lemma rne_nearest: "\<bar>x - of_int (rne x)\<bar> \<le> 1 / 2"
proof -
  have "of_int \<lfloor>x\<rfloor> \<le> x" "x < of_int \<lfloor>x\<rfloor> + 1" by linarith+
  then show ?thesis by (auto simp: rne_def Let_def)
qed

lemma rne_of_int: "rne (of_int k) = k"
  by (simp add: rne_def)

lemma ilog2_bounds:
  assumes "x \<noteq> 0"
  shows "pow2 (ilog2 x) \<le> \<bar>x\<bar> \<and> \<bar>x\<bar> < pow2 (ilog2 x + 1)"
proof (cases "1 \<le> \<bar>x\<bar>")
  case True
  then have fq: "0 < \<lfloor>\<bar>x\<bar>\<rfloor>" by linarith
  from fq have b1: "1 \<le> bitlen \<lfloor>\<bar>x\<bar>\<rfloor>" by (auto simp: bitlen_alt_def)
  have e: "ilog2 x = bitlen \<lfloor>\<bar>x\<bar>\<rfloor> - 1" using True by (simp add: ilog2_def)
  have "\<lfloor>\<bar>x\<bar>\<rfloor> < 2 ^ nat (bitlen \<lfloor>\<bar>x\<bar>\<rfloor>)" using bitlen_bounds [OF fq] by simp
  then have "\<lfloor>\<bar>x\<bar>\<rfloor> + 1 \<le> 2 ^ nat (bitlen \<lfloor>\<bar>x\<bar>\<rfloor>)" by simp
  then have "rat_of_int (\<lfloor>\<bar>x\<bar>\<rfloor> + 1) \<le> rat_of_int (2 ^ nat (bitlen \<lfloor>\<bar>x\<bar>\<rfloor>))"
    by (simp only: of_int_le_iff)
  then have "rat_of_int \<lfloor>\<bar>x\<bar>\<rfloor> + 1 \<le> (2::rat) ^ nat (bitlen \<lfloor>\<bar>x\<bar>\<rfloor>)" by simp
  moreover have "\<bar>x\<bar> < rat_of_int \<lfloor>\<bar>x\<bar>\<rfloor> + 1" by linarith
  ultimately have "\<bar>x\<bar> < 2 ^ nat (bitlen \<lfloor>\<bar>x\<bar>\<rfloor>)" by linarith
  then have up: "\<bar>x\<bar> < pow2 (ilog2 x + 1)" using b1 by (simp add: e pow2_def)
  have "pow2 (ilog2 \<bar>x\<bar>) \<le> \<bar>x\<bar>" using True by (rule pow2_ilog2_le)
  moreover have "ilog2 \<bar>x\<bar> = ilog2 x" by (simp add: ilog2_def)
  ultimately show ?thesis using up by simp
next
  case False
  define y where "y = 1 / \<bar>x\<bar>"
  from assms False have y1: "1 < y" by (simp add: y_def)
  define c where "c = \<lceil>y\<rceil> - 1"
  from y1 have c0: "0 < c" unfolding c_def by linarith
  have e: "ilog2 x = - bitlen c" using False by (simp add: ilog2_def c_def y_def)
  have bl: "1 \<le> bitlen c" using c0 by (auto simp: bitlen_alt_def)
  have cy: "rat_of_int c < y" "y \<le> rat_of_int c + 1" unfolding c_def by linarith+
  have "rat_of_int (2 ^ nat (bitlen c - 1)) \<le> rat_of_int c"
    using bitlen_bounds [OF c0] by (simp only: of_int_le_iff)
  then have "(2::rat) ^ nat (bitlen c - 1) \<le> rat_of_int c" by simp
  with cy(1) have lo: "2 ^ nat (bitlen c - 1) < y" by linarith
  have "c + 1 \<le> 2 ^ nat (bitlen c)" using bitlen_bounds [OF c0] by simp
  then have "rat_of_int (c + 1) \<le> rat_of_int (2 ^ nat (bitlen c))" by (simp only: of_int_le_iff)
  then have "rat_of_int c + 1 \<le> (2::rat) ^ nat (bitlen c)" by simp
  with cy(2) have hi: "y \<le> 2 ^ nat (bitlen c)" by linarith
  have xpos: "0 < \<bar>x\<bar>" using assms by simp
  from hi have "1 / 2 ^ nat (bitlen c) \<le> \<bar>x\<bar>"
    using xpos by (simp add: y_def field_simps)
  then have A: "pow2 (ilog2 x) \<le> \<bar>x\<bar>" using bl by (simp add: e pow2_def)
  from lo have "\<bar>x\<bar> < 1 / 2 ^ nat (bitlen c - 1)"
    using xpos by (simp add: y_def field_simps)
  moreover have "pow2 (ilog2 x + 1) = 1 / 2 ^ nat (bitlen c - 1)"
  proof (cases "bitlen c = 1")
    case True
    then show ?thesis by (simp add: e pow2_def)
  next
    case False
    with bl have "1 < bitlen c" by simp
    then show ?thesis by (simp add: e pow2_def)
  qed
  ultimately show ?thesis using A by simp
qed

lemma fl_nearest:
  assumes "fl x = Fin v"
  shows "\<bar>x - v\<bar> \<le> pow2 (max (ilog2 x) (- 1022) - 52) / 2"
proof (cases "x = 0")
  case True
  with assms show ?thesis using pow2_pos [of "max (ilog2 0) (- 1022) - 52"] by simp
next
  case False
  define q where "q = pow2 (max (ilog2 x) (- 1022) - 52)"
  have q: "0 < q" by (simp add: q_def pow2_pos)
  from assms False have v: "v = of_int (rne (x / q)) * q"
    by (simp add: fl_def Let_def q_def split: if_splits)
  have "\<bar>x / q - of_int (rne (x / q))\<bar> \<le> 1 / 2" by (rule rne_nearest)
  then have "\<bar>x / q - of_int (rne (x / q))\<bar> * q \<le> 1 / 2 * q"
    using q by (simp only: mult_le_cancel_right_pos)
  moreover have "\<bar>x / q - of_int (rne (x / q))\<bar> * q = \<bar>x - v\<bar>"
  proof -
    have "\<bar>x / q - of_int (rne (x / q))\<bar> * q = \<bar>(x / q - of_int (rne (x / q))) * q\<bar>"
      using q by (simp add: abs_mult)
    also have "(x / q - of_int (rne (x / q))) * q = x - v"
      using q by (simp add: v field_simps)
    finally show ?thesis .
  qed
  ultimately show ?thesis by (simp add: q_def)
qed
lemma sqrt_fin_nearest:
  assumes "0 < q"
  shows "\<exists>k. sqrt_fin q = of_int k * pow2 (ilog2 q div 2 - 52)
             \<and> (of_int k - 1 / 2) * (of_int k - 1 / 2) \<le> q / pow2 (2 * (ilog2 q div 2 - 52))
             \<and> q / pow2 (2 * (ilog2 q div 2 - 52)) \<le> (of_int k + 1 / 2) * (of_int k + 1 / 2)"
proof -
  define qe where "qe = ilog2 q div 2 - 52"
  define y where "y = q / pow2 (2 * qe)"
  define n where "n = isqrt \<lfloor>y\<rfloor>"
  define N where "N = rat_of_int n"
  have "2 * qe \<le> ilog2 q" by (simp add: qe_def)
  then have "pow2 (2 * qe) \<le> pow2 (ilog2 q)" by (rule pow2_mono)
  also have "\<dots> \<le> q" using ilog2_bounds [of q] assms by simp
  finally have y1: "1 \<le> y" using pow2_pos [of "2 * qe"] by (simp add: y_def)
  then have f1: "1 \<le> \<lfloor>y\<rfloor>" by simp
  then have n1: "1 \<le> n" unfolding n_def by (rule isqrt_pos)
  then have N1: "1 \<le> N" by (simp add: N_def)
  from f1 have sq: "n * n \<le> \<lfloor>y\<rfloor>" "\<lfloor>y\<rfloor> + 1 \<le> (n + 1) * (n + 1)"
    using isqrt_correct [of "\<lfloor>y\<rfloor>"] by (simp_all add: n_def)
  from sq(1) have "rat_of_int (n * n) \<le> rat_of_int \<lfloor>y\<rfloor>" by (simp only: of_int_le_iff)
  then have lo: "N * N \<le> y" by (simp add: N_def) linarith
  from sq(2) have "rat_of_int (\<lfloor>y\<rfloor> + 1) \<le> rat_of_int ((n + 1) * (n + 1))"
    by (simp only: of_int_le_iff)
  then have "rat_of_int \<lfloor>y\<rfloor> + 1 \<le> (N + 1) * (N + 1)" by (simp add: N_def)
  moreover have "y < rat_of_int \<lfloor>y\<rfloor> + 1" by linarith
  ultimately have hi: "y < (N + 1) * (N + 1)" by linarith
  have a: "(N - 1 / 2) * (N - 1 / 2) \<le> y"
    using lo N1 by (simp add: algebra_simps)
  have b: "y \<le> (N + 1 + 1 / 2) * (N + 1 + 1 / 2)"
    using hi N1 by (simp add: algebra_simps)
  have k: "sqrt_fin q
             = of_int (if y < (N + 1 / 2) * (N + 1 / 2) then n
                       else if (N + 1 / 2) * (N + 1 / 2) < y then n + 1
                       else if even n then n else n + 1) * pow2 qe"
    by (simp add: sqrt_fin_def Let_def qe_def y_def n_def N_def)
  show ?thesis
  proof (cases "y < (N + 1 / 2) * (N + 1 / 2)")
    case True
    with k a show ?thesis
      by (intro exI [of _ n]) (simp add: qe_def [symmetric] y_def [symmetric] N_def [symmetric])
  next
    case False
    note nlt = this
    show ?thesis
    proof (cases "(N + 1 / 2) * (N + 1 / 2) < y \<or> odd n")
      case True
      with nlt k have "sqrt_fin q = of_int (n + 1) * pow2 qe" by auto
      moreover have "rat_of_int (n + 1) - 1 / 2 = N + 1 / 2" by (simp add: N_def)
      then have "(rat_of_int (n + 1) - 1 / 2) * (rat_of_int (n + 1) - 1 / 2) \<le> y"
        using nlt by (simp only: not_less)
      moreover have "rat_of_int (n + 1) + 1 / 2 = N + 1 + 1 / 2" by (simp add: N_def)
      then have "y \<le> (rat_of_int (n + 1) + 1 / 2) * (rat_of_int (n + 1) + 1 / 2)"
        using b by (simp only:)
      ultimately show ?thesis
        unfolding qe_def [symmetric] y_def [symmetric] by (intro exI [of _ "n + 1"]) simp
    next
      case False
      with nlt k have "sqrt_fin q = of_int n * pow2 qe" by auto
      moreover from False nlt have "y = (N + 1 / 2) * (N + 1 / 2)" by simp
      ultimately show ?thesis
        using a unfolding qe_def [symmetric] y_def [symmetric]
        by (intro exI [of _ n]) (simp add: N_def)
    qed
  qed
qed

section \<open>The confidence selector: claims\<close>

lemma find_first_match:
  "\<forall>x\<in>set pre. \<not> P x \<Longrightarrow> P p \<Longrightarrow> find P (pre @ p # post) = Some p"
  by (induction pre) simp_all

lemma find_no_match: "\<forall>x\<in>set xs. \<not> P x \<Longrightarrow> find P xs = None"
  by (induction xs) simp_all

text \<open>
  C3. When some prediction reaches the fixed threshold, the selector returns the first
  such prediction in input order, whatever the other entries, the threshold and the
  multiplier are: if \<open>p\<close> reaches the threshold and nothing before it does, \<open>p\<close> is
  returned.
\<close>

theorem select_first_at_or_above_threshold:
  assumes "\<forall>x\<in>set pre. \<not> js_ge (confidence x) t"
    and "js_ge (confidence p) t"
  shows "findMostConfidentPredictionMeanStd (pre @ p # post) t std = p"
  using find_first_match [of pre "\<lambda>x. js_ge (confidence x) t" p post] assms
  by (simp add: findMostConfidentPredictionMeanStd_def Let_def)

lemma lit_9_10: "lit (9 / 10) = Fin (8106479329266893 / 9007199254740992)"
  by (simp add: number_eval cong: Let_by_value)

lemma lit_7_10: "lit (7 / 10) = Fin (3152519739159347 / 4503599627370496)"
  by (simp add: number_eval cong: Let_by_value)

theorem select_first_at_or_above_threshold_witness:
  "js_ge (confidence \<lparr>name = ''greet'', confidence = lit (9 / 10)\<rparr>) (lit (7 / 10))
   \<and> findMostConfidentPredictionMeanStd
     ([] @ \<lparr>name = ''greet'', confidence = lit (9 / 10)\<rparr>
         # [\<lparr>name = ''bye'', confidence = lit (4 / 10)\<rparr>])
     (lit (7 / 10)) None
   = \<lparr>name = ''greet'', confidence = lit (9 / 10)\<rparr>"
proof -
  have "js_ge (confidence \<lparr>name = ''greet'', confidence = lit (9 / 10)\<rparr>) (lit (7 / 10))"
    by (simp add: lit_9_10 lit_7_10)
  then show ?thesis
    using select_first_at_or_above_threshold
            [of "[]" "lit (7 / 10)" "\<lparr>name = ''greet'', confidence = lit (9 / 10)\<rparr>"
                "[\<lparr>name = ''bye'', confidence = lit (4 / 10)\<rparr>]" None]
    by simp
qed

text \<open>
  C5. For the empty list of predictions the selector returns the sentinel with name
  \<open>none\<close> and confidence 1, for every threshold and every multiplier.
\<close>

theorem select_empty_is_none:
  "findMostConfidentPredictionMeanStd [] t std = \<lparr>name = ''none'', confidence = Fin 1\<rparr>
   \<and> NonePrediction = \<lparr>name = ''none'', confidence = Fin 1\<rparr>"
  by (simp add: findMostConfidentPredictionMeanStd_def NonePrediction_def Let_def)

lemma baseSum_Some: "baseSum cs (Some a) = Some (foldl js_add a cs)"
  by (induction cs arbitrary: a) simp_all

lemma baseSum_is_sum:
  assumes "cs \<noteq> []" and "is_double (hd cs)"
  shows "baseSum cs None = Some (sum_numbers cs)"
proof (cases cs)
  case Nil
  with assms show ?thesis by simp
next
  case (Cons c rest)
  with assms have "js_add (Fin 0) c = c" by (simp add: js_add_zero_left)
  with Cons show ?thesis by (simp add: baseSum_Some sum_numbers_def)
qed

lemma meanBy_is_arithmetic_mean:
  assumes "intents \<noteq> []" and "is_double (confidence (hd intents))"
  shows "meanBy_confidence intents = arithmetic_mean (map confidence intents)"
proof -
  from assms have "baseSum (map confidence intents) None = Some (sum_numbers (map confidence intents))"
    by (intro baseSum_is_sum) (simp_all add: hd_map)
  with assms(1) show ?thesis
    by (simp add: meanBy_confidence_def arithmetic_mean_def)
qed

lemma reduce_is_sum:
  "foldl (\<lambda>a c. js_add a (f (confidence c))) z xs = foldl js_add z (map f (map confidence xs))"
  by (induction xs arbitrary: z) simp_all

lemma stdErr_is_standard_error:
  "stdErr_of intents (arithmetic_mean (map confidence intents))
     = standard_error (map confidence intents)"
  by (simp add: stdErr_of_def standard_error_def population_std_dev_def sum_numbers_def
        reduce_is_sum [of "\<lambda>c. Math_pow_2 (js_sub c m)" for m])

text \<open>
  C4. For a non-empty list of predictions none of which reaches the fixed threshold, the
  selector returns what the specification's outlier rule returns: the first prediction
  whose confidence is at least mean plus multiplier times standard error, where the mean
  is the arithmetic mean of the confidences and the standard error is the population
  standard deviation over the square root of the count, or the sentinel when there is
  none; an absent multiplier is 3. The confidences are binary64 numbers.
\<close>

theorem select_outlier_fallback:
  assumes "intents \<noteq> []"
    and "\<forall>p\<in>set intents. \<not> js_ge (confidence p) t"
    and "\<forall>p\<in>set intents. is_double (confidence p)"
  shows "findMostConfidentPredictionMeanStd intents t std
         = select_outlier_spec intents (case std of None \<Rightarrow> lit 3 | Some k \<Rightarrow> k)"
proof -
  from assms(1,3) have "is_double (confidence (hd intents))" by simp
  with assms(1) have mean: "meanBy_confidence intents = arithmetic_mean (map confidence intents)"
    by (rule meanBy_is_arithmetic_mean)
  from assms(2) have "find (\<lambda>x. js_ge (confidence x) t) intents = None"
    by (rule find_no_match)
  with assms(1) show ?thesis
    by (simp add: findMostConfidentPredictionMeanStd_def select_outlier_spec_def Let_def mean
          stdErr_is_standard_error outlier_cutoff_def js_add_commute js_mul_commute)
qed

lemmas selector_spec_eval = select_outlier_spec_def outlier_cutoff_def standard_error_def
  population_std_dev_def arithmetic_mean_def sum_numbers_def NonePrediction_def

theorem select_outlier_fallback_witness:
  "[\<lparr>name = ''a'', confidence = lit (3 / 10)\<rparr>, \<lparr>name = ''b'', confidence = lit (7 / 20)\<rparr>,
    \<lparr>name = ''c'', confidence = lit (8 / 25)\<rparr>] \<noteq> []
   \<and> \<not> js_ge (lit (3 / 10)) (lit (99 / 100)) \<and> is_double (lit (3 / 10))
   \<and> \<not> js_ge (lit (7 / 20)) (lit (99 / 100)) \<and> is_double (lit (7 / 20))
   \<and> \<not> js_ge (lit (8 / 25)) (lit (99 / 100)) \<and> is_double (lit (8 / 25))
   \<and> findMostConfidentPredictionMeanStd
         [\<lparr>name = ''a'', confidence = lit (3 / 10)\<rparr>, \<lparr>name = ''b'', confidence = lit (7 / 20)\<rparr>,
          \<lparr>name = ''c'', confidence = lit (8 / 25)\<rparr>] (lit (99 / 100)) None
       = NonePrediction"
proof -
  have a: "lit (3 / 10) = Fin (5404319552844595 / 18014398509481984)"
    by (simp add: number_eval cong: Let_by_value)
  have b: "lit (7 / 20) = Fin (3152519739159347 / 9007199254740992)"
    by (simp add: number_eval cong: Let_by_value)
  have c: "lit (8 / 25) = Fin (5764607523034235 / 18014398509481984)"
    by (simp add: number_eval cong: Let_by_value)
  have t: "lit (99 / 100) = Fin (4458563631096791 / 4503599627370496)"
    by (simp add: number_eval cong: Let_by_value)
  have d: "is_double (Fin (5404319552844595 / 18014398509481984))"
    "is_double (Fin (3152519739159347 / 9007199254740992))"
    "is_double (Fin (5764607523034235 / 18014398509481984))"
    by (simp_all add: is_double_def number_eval cong: Let_by_value)
  have spec: "select_outlier_spec
         [\<lparr>name = ''a'', confidence = Fin (5404319552844595 / 18014398509481984)\<rparr>,
          \<lparr>name = ''b'', confidence = Fin (3152519739159347 / 9007199254740992)\<rparr>,
          \<lparr>name = ''c'', confidence = Fin (5764607523034235 / 18014398509481984)\<rparr>] (Fin 3)
       = NonePrediction"
    by (simp add: selector_spec_eval number_eval cong: Let_by_value)
  show ?thesis
    using select_outlier_fallback
            [of "[\<lparr>name = ''a'', confidence = lit (3 / 10)\<rparr>,
                  \<lparr>name = ''b'', confidence = lit (7 / 20)\<rparr>,
                  \<lparr>name = ''c'', confidence = lit (8 / 25)\<rparr>]" "lit (99 / 100)" None]
    by (simp add: a b c t d spec)
qed

lemma reduce_zero_terms:
  "\<forall>p\<in>set xs. g p = Fin 0 \<Longrightarrow> foldl (\<lambda>a p. js_add a (g p)) (Fin 0) xs = Fin 0"
  by (induction xs) simp_all

lemma stdErr_zero:
  assumes "intents \<noteq> []" and "\<forall>p\<in>set intents. confidence p = Fin c"
  shows "stdErr_of intents (Fin c) = Fin 0"
proof -
  have "\<forall>p\<in>set intents. Math_pow_2 (js_sub (confidence p) (Fin c)) = Fin 0"
    using assms(2) by (simp add: Math_pow_2_def js_sub_def)
  then have sq: "foldl (\<lambda>a p. js_add a (Math_pow_2 (js_sub (confidence p) (Fin c)))) (Fin 0) intents
                   = Fin 0"
    by (rule reduce_zero_terms)
  from assms(1) have n: "(1::rat) \<le> of_nat (length intents)"
    by (cases intents) simp_all
  then have "0 < sqrt_fin (of_nat (length intents))" by (rule sqrt_fin_pos)
  with n assms(1) show ?thesis
    by (simp add: stdErr_of_def sq of_len_def)
qed

lemma meanBy_singleton: "is_double (confidence p) \<Longrightarrow> meanBy_confidence [p] = confidence p"
  by (cases "confidence p") (simp_all add: meanBy_confidence_def of_len_def is_double_def)

text \<open>
  C9, as the code has it. For a non-empty list of predictions that all carry the same
  finite confidence, strictly below the fixed threshold, and a finite multiplier (or the
  default), the selector returns the first prediction whenever the computed mean equals
  that common confidence; it does for every list of one prediction. Then every squared
  deviation is zero, so is the standard error, and the cut-off is the mean itself.
\<close>

theorem select_equal_confidences:
  assumes "intents \<noteq> []"
    and "\<forall>p\<in>set intents. confidence p = Fin c"
    and "is_double (Fin c)"
    and "js_lt (Fin c) t"
    and "std = None \<or> (\<exists>s. std = Some (Fin s))"
    and "meanBy_confidence intents = Fin c \<or> length intents = 1"
  shows "findMostConfidentPredictionMeanStd intents t std = hd intents"
proof -
  obtain p rest where intents: "intents = p # rest"
    using assms(1) by (cases intents) auto
  with assms(2) have p: "confidence p = Fin c" by simp
  have mean: "meanBy_confidence intents = Fin c"
  proof (cases "length intents = 1")
    case True
    with intents have "intents = [p]" by simp
    with p assms(3) show ?thesis by (simp add: meanBy_singleton)
  next
    case False
    with assms(6) show ?thesis by simp
  qed
  have "\<not> js_ge (Fin c) t" using assms(4) by (rule js_lt_not_ge)
  with assms(2) have below: "find (\<lambda>x. js_ge (confidence x) t) intents = None"
    by (intro find_no_match) simp
  have se: "stdErr_of intents (Fin c) = Fin 0"
    using assms(1,2) by (rule stdErr_zero)
  obtain s where std: "(case std of None \<Rightarrow> lit 3 | Some k \<Rightarrow> k) = Fin s"
    using assms(5) by auto
  have cutoff: "fl c = Fin c"
    using assms(3) by (simp add: is_double_def)
  have "findMostConfidentPredictionMeanStd intents t std
          = (case find (\<lambda>x. js_ge (confidence x) (Fin c)) intents of
               None \<Rightarrow> NonePrediction
             | Some dominant \<Rightarrow> dominant)"
    using assms(1)
    by (simp add: findMostConfidentPredictionMeanStd_def Let_def below mean se std cutoff)
  also have "find (\<lambda>x. js_ge (confidence x) (Fin c)) intents = Some p"
    using intents p by simp
  finally show ?thesis using intents by simp
qed

lemmas selector_eval = findMostConfidentPredictionMeanStd_def meanBy_confidence_def stdErr_of_def
  NonePrediction_def

theorem select_equal_confidences_witness:
  "[\<lparr>name = ''a'', confidence = Fin (1 / 4)\<rparr>, \<lparr>name = ''b'', confidence = Fin (1 / 4)\<rparr>] \<noteq> []
   \<and> is_double (Fin (1 / 4))
   \<and> js_lt (Fin (1 / 4)) (lit (7 / 10))
   \<and> meanBy_confidence
         [\<lparr>name = ''a'', confidence = Fin (1 / 4)\<rparr>, \<lparr>name = ''b'', confidence = Fin (1 / 4)\<rparr>]
       = Fin (1 / 4)
   \<and> findMostConfidentPredictionMeanStd
         [\<lparr>name = ''a'', confidence = Fin (1 / 4)\<rparr>, \<lparr>name = ''b'', confidence = Fin (1 / 4)\<rparr>]
         (lit (7 / 10)) None
       = \<lparr>name = ''a'', confidence = Fin (1 / 4)\<rparr>
   \<and> findMostConfidentPredictionMeanStd [\<lparr>name = ''b'', confidence = Fin (1 / 4)\<rparr>]
         (lit (7 / 10)) (Some (Fin 5))
       = \<lparr>name = ''b'', confidence = Fin (1 / 4)\<rparr>"
proof -
  have d: "is_double (Fin (1 / 4))"
    by (simp add: is_double_def number_eval cong: Let_by_value)
  have lt: "js_lt (Fin (1 / 4)) (lit (7 / 10))"
    by (simp add: lit_7_10)
  have m: "meanBy_confidence
             [\<lparr>name = ''a'', confidence = Fin (1 / 4)\<rparr>, \<lparr>name = ''b'', confidence = Fin (1 / 4)\<rparr>]
           = Fin (1 / 4)"
    by (simp add: meanBy_confidence_def number_eval cong: Let_by_value)
  show ?thesis
    using select_equal_confidences
            [of "[\<lparr>name = ''a'', confidence = Fin (1 / 4)\<rparr>,
                  \<lparr>name = ''b'', confidence = Fin (1 / 4)\<rparr>]" "1 / 4" "lit (7 / 10)" None]
          select_equal_confidences
            [of "[\<lparr>name = ''b'', confidence = Fin (1 / 4)\<rparr>]" "1 / 4" "lit (7 / 10)"
                "Some (Fin 5)"]
          d lt m
    by simp
qed

text \<open>
  C9, as stated, fails on three predictions of confidence 0.1 under the threshold 0.7:
  the rounded sum \<open>0.1 + 0.1 + 0.1\<close> divided by 3 is the next number above 0.1, so the
  mean, and with it the cut-off, lies above every confidence and the sentinel is
  returned.
\<close>

theorem select_equal_confidences_counterexample:
  "js_lt (lit (1 / 10)) (lit (7 / 10))
   \<and> meanBy_confidence
         [\<lparr>name = ''a'', confidence = lit (1 / 10)\<rparr>, \<lparr>name = ''b'', confidence = lit (1 / 10)\<rparr>,
          \<lparr>name = ''c'', confidence = lit (1 / 10)\<rparr>]
       = Fin (7205759403792795 / 72057594037927936)
   \<and> lit (1 / 10) = Fin (7205759403792794 / 72057594037927936)
   \<and> findMostConfidentPredictionMeanStd
         [\<lparr>name = ''a'', confidence = lit (1 / 10)\<rparr>, \<lparr>name = ''b'', confidence = lit (1 / 10)\<rparr>,
          \<lparr>name = ''c'', confidence = lit (1 / 10)\<rparr>] (lit (7 / 10)) None
       = NonePrediction
   \<and> NonePrediction \<noteq> \<lparr>name = ''a'', confidence = lit (1 / 10)\<rparr>"
proof -
  have c: "lit (1 / 10) = Fin (3602879701896397 / 36028797018963968)"
    by (simp add: number_eval cong: Let_by_value)
  show ?thesis
    by (simp add: c lit_7_10 selector_eval number_eval cong: Let_by_value)
qed

section \<open>The engine: claims\<close>

text \<open>
  C6. \<open>checkSyncNeeded\<close> answers true exactly when the stored intent set is not empty
  and the model id loaded in the classifier differs from the fingerprint of the stored
  intents; with no intents it answers false whatever the classifier holds.
\<close>

theorem checkSyncNeeded_iff:
  assumes "getIntents env (storage eng) = Inr stored"
  shows "fst (checkSyncNeeded env eng)
           = Inr (stored \<noteq> []
                  \<and> currentModelId (intentClassifier eng) \<noteq> Some (priv_getIntentsHash env stored))
         \<and> (stored = [] \<longrightarrow> fst (checkSyncNeeded env eng) = Inr False)"
  using assms by (simp add: checkSyncNeeded_def called_def Let_def)

theorem checkSyncNeeded_iff_witness:
  "getIntents demo_env (storage (demo_engine [])) = Inr demo_intents
   \<and> fst (checkSyncNeeded demo_env (demo_engine [])) = Inr True
   \<and> getIntents demo_env (storage ((demo_engine [])\<lparr>storage := ([], [])\<rparr>)) = Inr []
   \<and> fst (checkSyncNeeded demo_env ((demo_engine [])\<lparr>storage := ([], [])\<rparr>)) = Inr False"
proof -
  have g: "getIntents demo_env (storage (demo_engine [])) = Inr demo_intents"
    by (simp add: demo_env_def demo_engine_def)
  have e: "getIntents demo_env (storage ((demo_engine [])\<lparr>storage := ([], [])\<rparr>)) = Inr []"
    by (simp add: demo_env_def)
  show ?thesis
    using checkSyncNeeded_iff [OF g] checkSyncNeeded_iff [OF e] g e
    by (simp add: demo_engine_def demo_intents_def)
qed

lemmas sync_unfold = sync_def priv_loadModel_def priv_trainModel_def called_def logger_def Let_def

text \<open>
  C7. When storage reports a persisted model under the fingerprint of the stored intents
  and hands its bytes over, \<open>sync\<close> loads these bytes into the classifier, whose model
  id becomes the fingerprint, and the calls made are the four of the load path followed
  at most by the slot tagger's training: the classifier's \<open>train\<close> is not among them.
\<close>

theorem sync_loads_persisted_model:
  assumes "getIntents env (storage eng) = Inr stored"
    and "h = priv_getIntentsHash env stored"
    and "modelExists env h (storage eng) = Inr True"
    and "getModelAsBuffer env h (storage eng) = Inr modelBuffer"
  shows "fst (sync env eng) = Inr ()
         \<and> intentClassifier (snd (sync env eng)) = loadModel modelBuffer h (intentClassifier eng)
         \<and> currentModelId (intentClassifier (snd (sync env eng))) = Some h
         \<and> (\<exists>rest. calls (snd (sync env eng))
                      = calls eng @ [GetIntents, ModelExists h, GetModelAsBuffer h,
                                     LoadModel modelBuffer h] @ rest
                   \<and> (\<forall>is k. Train is k \<notin> set rest))"
  using assms
  by (auto simp: sync_unfold loadModel_def split: sum.splits)

lemmas demo_unfold = demo_env_def demo_engine_def demo_intents_def demo_find_model_def
  ends_with_def priv_getIntentsHash_def

theorem sync_loads_persisted_model_witness:
  "getIntents demo_env (storage (demo_engine [(''1541200000000__md5-greetbye.bin'', ''old'')]))
     = Inr demo_intents
   \<and> ''md5-greetbye'' = priv_getIntentsHash demo_env demo_intents
   \<and> modelExists demo_env ''md5-greetbye''
         (storage (demo_engine [(''1541200000000__md5-greetbye.bin'', ''old'')])) = Inr True
   \<and> getModelAsBuffer demo_env ''md5-greetbye''
         (storage (demo_engine [(''1541200000000__md5-greetbye.bin'', ''old'')])) = Inr ''old''
   \<and> intentClassifier
         (snd (sync demo_env (demo_engine [(''1541200000000__md5-greetbye.bin'', ''old'')])))
       = \<lparr>currentModelId = Some ''md5-greetbye'', activeModel = Some ''old''\<rparr>"
proof -
  have a: "getIntents demo_env (storage (demo_engine [(''1541200000000__md5-greetbye.bin'', ''old'')]))
             = Inr demo_intents"
    by (simp add: demo_env_def demo_engine_def)
  have b: "''md5-greetbye'' = priv_getIntentsHash demo_env demo_intents"
    by (simp add: demo_unfold)
  have c: "modelExists demo_env ''md5-greetbye''
             (storage (demo_engine [(''1541200000000__md5-greetbye.bin'', ''old'')])) = Inr True"
    by (simp add: demo_unfold)
  have d: "getModelAsBuffer demo_env ''md5-greetbye''
             (storage (demo_engine [(''1541200000000__md5-greetbye.bin'', ''old'')])) = Inr ''old''"
    by (simp add: demo_unfold)
  show ?thesis
    using sync_loads_persisted_model [OF a b c d] a b c d
    by (simp add: loadModel_def demo_engine_def)
qed





lemma sync_keeps_threshold: "confidenceTreshold (snd (sync env eng)) = confidenceTreshold eng"
  by (auto simp: sync_unfold split: sum.splits prod.splits)

lemma checkSyncNeeded_keeps_threshold:
  "confidenceTreshold (snd (checkSyncNeeded env eng)) = confidenceTreshold eng"
  by (simp add: checkSyncNeeded_def called_def Let_def split: sum.splits)

lemma init_threshold_is_clamped:
  "confidenceTreshold (snd (init env eng))
     = (if isNaN (config_confidenceTreshold env)
           \<or> js_lt (to_number (config_confidenceTreshold env)) (lit 0)
           \<or> js_gt (to_number (config_confidenceTreshold env)) (lit 1)
        then Num (lit (7 / 10)) else config_confidenceTreshold env)"
proof -
  define eng1 where "eng1 = eng\<lparr>confidenceTreshold := config_confidenceTreshold env\<rparr>"
  define eng2 where
    "eng2 = (if isNaN (confidenceTreshold eng1)
                \<or> js_lt (to_number (confidenceTreshold eng1)) (lit 0)
                \<or> js_gt (to_number (confidenceTreshold eng1)) (lit 1)
             then eng1\<lparr>confidenceTreshold := Num (lit (7 / 10))\<rparr>
             else eng1)"
  obtain r eng3 where check: "checkSyncNeeded env eng2 = (r, eng3)"
    by (cases "checkSyncNeeded env eng2")
  have i: "init env eng
             = (case r of Inl e \<Rightarrow> (Inl e, eng3)
                | Inr needed \<Rightarrow> if needed then sync env eng3 else (Inr (), eng3))"
    unfolding init_def Let_def eng1_def [symmetric] eng2_def [symmetric] check by simp
  have "confidenceTreshold eng3 = confidenceTreshold eng2"
    using checkSyncNeeded_keeps_threshold [of env eng2] by (simp add: check)
  then have "confidenceTreshold (snd (init env eng)) = confidenceTreshold eng2"
    by (simp add: i sync_keeps_threshold split: sum.splits)
  then show ?thesis
    by (simp add: eng2_def eng1_def)
qed

lemma in_unit_interval:
  assumes "\<not> isNaN v" and "\<not> js_lt (to_number v) (Fin 0)" and "\<not> js_gt (to_number v) (Fin 1)"
  shows "\<exists>x. v = Num x \<and> js_ge x (Fin 0) \<and> js_ge (Fin 1) x"
proof (cases v)
  case Undefined
  with assms(1) show ?thesis by (simp add: isNaN_def)
next
  case (Num x)
  with assms show ?thesis
    by (cases x) (simp_all add: isNaN_def js_gt_def)
qed

text \<open>
  C8. After \<open>init\<close>, whether or not the synchronisation that follows succeeds, the
  confidence threshold is a number in the interval from 0 to 1: it is 0.7 when the
  configured value is absent, NaN, below 0 or above 1, and the configured value
  otherwise.
\<close>

theorem init_threshold_in_unit_interval:
  "(\<exists>x. confidenceTreshold (snd (init env eng)) = Num x \<and> js_ge x (Fin 0) \<and> js_ge (Fin 1) x)
   \<and> (if config_confidenceTreshold env = Undefined
          \<or> config_confidenceTreshold env = Num NaN
          \<or> js_lt (to_number (config_confidenceTreshold env)) (Fin 0)
          \<or> js_gt (to_number (config_confidenceTreshold env)) (Fin 1)
       then confidenceTreshold (snd (init env eng)) = Num (lit (7 / 10))
       else confidenceTreshold (snd (init env eng)) = config_confidenceTreshold env)"
proof -
  have nan: "isNaN v \<longleftrightarrow> v = Undefined \<or> v = Num NaN" for v
    by (cases v) (simp_all add: isNaN_def)
  show ?thesis
  proof (cases "isNaN (config_confidenceTreshold env)
                 \<or> js_lt (to_number (config_confidenceTreshold env)) (Fin 0)
                 \<or> js_gt (to_number (config_confidenceTreshold env)) (Fin 1)")
    case True
    then have "confidenceTreshold (snd (init env eng)) = Num (lit (7 / 10))"
      by (simp add: init_threshold_is_clamped)
    with True show ?thesis by (simp add: nan lit_7_10)
  next
    case False
    then have th: "confidenceTreshold (snd (init env eng)) = config_confidenceTreshold env"
      by (simp add: init_threshold_is_clamped)
    from False in_unit_interval [of "config_confidenceTreshold env"]
    have "\<exists>x. config_confidenceTreshold env = Num x \<and> js_ge x (Fin 0) \<and> js_ge (Fin 1) x"
      by simp
    with False th show ?thesis by (simp add: nan)
  qed
qed

theorem init_threshold_in_unit_interval_witness:
  "confidenceTreshold
     (snd (init (demo_env\<lparr>config_confidenceTreshold := Num (lit (3 / 2))\<rparr>) (demo_engine [])))
     = Num (lit (7 / 10))
   \<and> confidenceTreshold
       (snd (init (demo_env\<lparr>config_confidenceTreshold := Num NaN\<rparr>) (demo_engine [])))
     = Num (lit (7 / 10))
   \<and> confidenceTreshold
       (snd (init (demo_env\<lparr>config_confidenceTreshold := Undefined\<rparr>) (demo_engine [])))
     = Num (lit (7 / 10))
   \<and> confidenceTreshold (snd (init demo_env (demo_engine []))) = Num (lit (1 / 2))"
proof -
  have a: "lit (3 / 2) = Fin (3 / 2)" "lit (1 / 2) = Fin (1 / 2)"
    by (simp_all add: number_eval cong: Let_by_value)
  show ?thesis
    using init_threshold_in_unit_interval
            [of "demo_env\<lparr>config_confidenceTreshold := Num (lit (3 / 2))\<rparr>" "demo_engine []"]
          init_threshold_in_unit_interval
            [of "demo_env\<lparr>config_confidenceTreshold := Num NaN\<rparr>" "demo_engine []"]
          init_threshold_in_unit_interval
            [of "demo_env\<lparr>config_confidenceTreshold := Undefined\<rparr>" "demo_engine []"]
          init_threshold_in_unit_interval [of demo_env "demo_engine []"]
    by (simp add: a js_gt_def demo_env_def)
qed

lemma retry_loop_fulfilled:
  "fst (func st) = Inr v \<Longrightarrow> retry_loop (Suc remaining) tries timed_out func st = (func st, Suc tries)"
  by (cases "func st") simp

lemma priv_extract_fulfils: "\<exists>ret. fst (priv_extract env incomingEvent eng) = Inr ret"
  by (simp add: priv_extract_def Let_def split: prod.splits)

text \<open>
  C10. The public operation \<open>extract\<close> is one call of the private pipeline: the pipeline
  always fulfils with a result, so the retry loop stops after its first attempt, returns
  that result and the engine state the attempt left, and never reports a failure.
\<close>

theorem extract_is_single_attempt:
  "public_extract env incomingEvent eng = (priv_extract env incomingEvent eng, 1)
   \<and> (\<exists>ret. fst (fst (public_extract env incomingEvent eng)) = Inr ret)"
proof -
  obtain ret where r: "fst (priv_extract env incomingEvent eng) = Inr ret"
    using priv_extract_fulfils by blast
  have "retry_loop (Suc 2) 0 (retry_timed_out env) (priv_extract env incomingEvent) eng
          = (priv_extract env incomingEvent eng, Suc 0)"
    using r by (rule retry_loop_fulfilled)
  then have "public_extract env incomingEvent eng = (priv_extract env incomingEvent eng, 1)"
    by (simp add: public_extract_def retry_def retryPolicy_def numeral_3_eq_3)
  with r show ?thesis by simp
qed

lemmas extract_unfold = priv_extract_def extract_try_def Let_def logger_def

text \<open>
  C2. The pipeline never raises: it always returns a result object. When every step
  succeeds the result carries all five fields and \<open>errored = false\<close>. When a step
  raises, the result carries the fields assigned by the steps before it, nothing else,
  and \<open>errored = true\<close>: nothing when language identification raises; the language
  when intent prediction raises; language and ranked intents when the matcher factory
  raises; also the selected intent when entity extraction raises; and language, ranked
  intents, selected intent and entities, without slots, when the lookup of the intent
  definition or the slot extraction raises.
\<close>

theorem priv_extract_partial_result:
  "(\<exists>ret. fst (priv_extract env ev eng) = Inr ret)
   \<and> (\<forall>e. identify env (preview ev) = Inl e \<longrightarrow>
          fst (priv_extract env ev eng)
            = Inr \<lparr>ret_language = None, ret_intents = None, ret_intent = None,
                   ret_entities = None, ret_slots = None, errored = True\<rparr>)
   \<and> (\<forall>lang e. identify env (preview ev) = Inr lang
          \<and> predict env (intentClassifier eng) (preview ev) = Inl e \<longrightarrow>
          fst (priv_extract env ev eng)
            = Inr \<lparr>ret_language = Some lang, ret_intents = None, ret_intent = None,
                   ret_entities = None, ret_slots = None, errored = True\<rparr>)
   \<and> (\<forall>lang ps chosen e. identify env (preview ev) = Inr lang
          \<and> predict env (intentClassifier eng) (preview ev) = Inr ps
          \<and> chosen = findMostConfidentPredictionMeanStd ps (to_number (confidenceTreshold eng)) None
          \<and> createIntentMatcher env (name chosen) = Inl e \<longrightarrow>
          fst (priv_extract env ev eng)
            = Inr \<lparr>ret_language = Some lang, ret_intents = Some ps, ret_intent = None,
                   ret_entities = None, ret_slots = None, errored = True\<rparr>)
   \<and> (\<forall>lang ps chosen m e. identify env (preview ev) = Inr lang
          \<and> predict env (intentClassifier eng) (preview ev) = Inr ps
          \<and> chosen = findMostConfidentPredictionMeanStd ps (to_number (confidenceTreshold eng)) None
          \<and> createIntentMatcher env (name chosen) = Inr m
          \<and> priv_extractEntities env eng (preview ev) lang = Inl e \<longrightarrow>
          fst (priv_extract env ev eng)
            = Inr \<lparr>ret_language = Some lang, ret_intents = Some ps,
                   ret_intent = Some \<lparr>name = name chosen, confidence = confidence chosen, matches = m\<rparr>,
                   ret_entities = None, ret_slots = None, errored = True\<rparr>)
   \<and> (\<forall>lang ps chosen m ents. identify env (preview ev) = Inr lang
          \<and> predict env (intentClassifier eng) (preview ev) = Inr ps
          \<and> chosen = findMostConfidentPredictionMeanStd ps (to_number (confidenceTreshold eng)) None
          \<and> createIntentMatcher env (name chosen) = Inr m
          \<and> priv_extractEntities env eng (preview ev) lang = Inr ents
          \<and> ((\<exists>e. getIntent env (name chosen) (storage eng) = Inl e)
               \<or> (\<exists>d e. getIntent env (name chosen) (storage eng) = Inr d
                         \<and> slot_extract env (slotExtractor eng) (preview ev) d ents = Inl e)) \<longrightarrow>
          fst (priv_extract env ev eng)
            = Inr \<lparr>ret_language = Some lang, ret_intents = Some ps,
                   ret_intent = Some \<lparr>name = name chosen, confidence = confidence chosen, matches = m\<rparr>,
                   ret_entities = Some ents, ret_slots = None, errored = True\<rparr>)
   \<and> (\<forall>lang ps chosen m ents d found. identify env (preview ev) = Inr lang
          \<and> predict env (intentClassifier eng) (preview ev) = Inr ps
          \<and> chosen = findMostConfidentPredictionMeanStd ps (to_number (confidenceTreshold eng)) None
          \<and> createIntentMatcher env (name chosen) = Inr m
          \<and> priv_extractEntities env eng (preview ev) lang = Inr ents
          \<and> getIntent env (name chosen) (storage eng) = Inr d
          \<and> slot_extract env (slotExtractor eng) (preview ev) d ents = Inr found \<longrightarrow>
          fst (priv_extract env ev eng)
            = Inr \<lparr>ret_language = Some lang, ret_intents = Some ps,
                   ret_intent = Some \<lparr>name = name chosen, confidence = confidence chosen, matches = m\<rparr>,
                   ret_entities = Some ents, ret_slots = Some found, errored = False\<rparr>)"
proof (intro conjI allI impI)
  show "\<exists>ret. fst (priv_extract env ev eng) = Inr ret"
    by (rule priv_extract_fulfils)
qed (auto simp: extract_unfold)

lemma demo_chosen:
  "findMostConfidentPredictionMeanStd
     [\<lparr>name = ''greet'', confidence = lit (9 / 10)\<rparr>, \<lparr>name = ''bye'', confidence = lit (2 / 5)\<rparr>]
     (lit (7 / 10)) None
   = \<lparr>name = ''greet'', confidence = lit (9 / 10)\<rparr>"
proof -
  have "js_ge (lit (9 / 10)) (lit (7 / 10))" by (simp add: lit_9_10 lit_7_10)
  then show ?thesis by (simp add: findMostConfidentPredictionMeanStd_def)
qed

theorem priv_extract_partial_result_witness:
  "fst (priv_extract (demo_env\<lparr>slot_extract := (\<lambda>x text d ents. Inl ''tagger failed'')\<rparr>)
          \<lparr>preview = ''hello''\<rparr> (demo_engine []))
     = Inr \<lparr>ret_language = Some ''en'',
            ret_intents = Some [\<lparr>name = ''greet'', confidence = lit (9 / 10)\<rparr>,
                                \<lparr>name = ''bye'', confidence = lit (2 / 5)\<rparr>],
            ret_intent = Some \<lparr>name = ''greet'', confidence = lit (9 / 10),
                               matches = (\<lambda>pattern. pattern = ''greet'')\<rparr>,
            ret_entities = Some [], ret_slots = None, errored = True\<rparr>
   \<and> fst (priv_extract demo_env \<lparr>preview = ''hello''\<rparr> (demo_engine []))
     = Inr \<lparr>ret_language = Some ''en'',
            ret_intents = Some [\<lparr>name = ''greet'', confidence = lit (9 / 10)\<rparr>,
                                \<lparr>name = ''bye'', confidence = lit (2 / 5)\<rparr>],
            ret_intent = Some \<lparr>name = ''greet'', confidence = lit (9 / 10),
                               matches = (\<lambda>pattern. pattern = ''greet'')\<rparr>,
            ret_entities = Some [], ret_slots = Some [], errored = False\<rparr>
   \<and> fst (priv_extract (demo_env\<lparr>identify := (\<lambda>text. Inl ''no language model'')\<rparr>)
          \<lparr>preview = ''hello''\<rparr> (demo_engine []))
     = Inr \<lparr>ret_language = None, ret_intents = None, ret_intent = None,
            ret_entities = None, ret_slots = None, errored = True\<rparr>
   \<and> fst (priv_extract (demo_env\<lparr>predict := (\<lambda>c text. Inl ''no intent model'')\<rparr>)
          \<lparr>preview = ''hello''\<rparr> (demo_engine []))
     = Inr \<lparr>ret_language = Some ''en'', ret_intents = None, ret_intent = None,
            ret_entities = None, ret_slots = None, errored = True\<rparr>
   \<and> fst (priv_extract (demo_env\<lparr>createIntentMatcher := (\<lambda>n. Inl ''no matcher'')\<rparr>)
          \<lparr>preview = ''hello''\<rparr> (demo_engine []))
     = Inr \<lparr>ret_language = Some ''en'',
            ret_intents = Some [\<lparr>name = ''greet'', confidence = lit (9 / 10)\<rparr>,
                                \<lparr>name = ''bye'', confidence = lit (2 / 5)\<rparr>],
            ret_intent = None, ret_entities = None, ret_slots = None, errored = True\<rparr>
   \<and> fst (priv_extract (demo_env\<lparr>system_extract := (\<lambda>text lang. Inl ''duckling down'')\<rparr>)
          \<lparr>preview = ''hello''\<rparr> (demo_engine []))
     = Inr \<lparr>ret_language = Some ''en'',
            ret_intents = Some [\<lparr>name = ''greet'', confidence = lit (9 / 10)\<rparr>,
                                \<lparr>name = ''bye'', confidence = lit (2 / 5)\<rparr>],
            ret_intent = Some \<lparr>name = ''greet'', confidence = lit (9 / 10),
                               matches = (\<lambda>pattern. pattern = ''greet'')\<rparr>,
            ret_entities = None, ret_slots = None, errored = True\<rparr>"
proof -
  note run = demo_env_def demo_engine_def demo_intents_def demo_chosen priv_extractEntities_def
  show ?thesis
    using priv_extract_partial_result
            [of "demo_env\<lparr>slot_extract := (\<lambda>x text d ents. Inl ''tagger failed'')\<rparr>"
                "\<lparr>preview = ''hello''\<rparr>" "demo_engine []"]
          priv_extract_partial_result [of demo_env "\<lparr>preview = ''hello''\<rparr>" "demo_engine []"]
          priv_extract_partial_result
            [of "demo_env\<lparr>identify := (\<lambda>text. Inl ''no language model'')\<rparr>"
                "\<lparr>preview = ''hello''\<rparr>" "demo_engine []"]
          priv_extract_partial_result
            [of "demo_env\<lparr>predict := (\<lambda>c text. Inl ''no intent model'')\<rparr>"
                "\<lparr>preview = ''hello''\<rparr>" "demo_engine []"]
          priv_extract_partial_result
            [of "demo_env\<lparr>createIntentMatcher := (\<lambda>n. Inl ''no matcher'')\<rparr>"
                "\<lparr>preview = ''hello''\<rparr>" "demo_engine []"]
          priv_extract_partial_result
            [of "demo_env\<lparr>system_extract := (\<lambda>text lang. Inl ''duckling down'')\<rparr>"
                "\<lparr>preview = ''hello''\<rparr>" "demo_engine []"]
    by (simp add: run)
qed

end
